theory Spec2Isabelle
  imports Main
begin

section \<open>Indexed corpus: data model\<close>

text \<open>
  The embedding follows \<^verbatim>\<open>gensim/corpora/indexedcorpus.py\<close>. The class composes with
  collaborators that live outside the file: \<^verbatim>\<open>utils.pickle\<close> and \<^verbatim>\<open>utils.unpickle\<close>
  (blob persistence), and the concrete corpus class, which supplies \<^verbatim>\<open>save_corpus\<close>,
  \<^verbatim>\<open>docbyoffset\<close> and \<^verbatim>\<open>__iter__\<close>. They are parameters of the model. Everything they
  can touch (the file system) is a state of an arbitrary type \<open>'w\<close> that is passed through
  every call explicitly, and what a collaborator raises is on the left of a sum.
\<close>

text \<open>
  Exceptions, by class. \<^verbatim>\<open>ValueError\<close>, \<^verbatim>\<open>NotImplementedError\<close> and \<^verbatim>\<open>RuntimeError\<close> are
  raised by the class itself, \<^verbatim>\<open>IndexError\<close> and \<^verbatim>\<open>TypeError\<close> by \<^verbatim>\<open>self.index[docno]\<close> and
  \<^verbatim>\<open>len(self.index)\<close>. What \<^verbatim>\<open>save_corpus\<close>, \<^verbatim>\<open>utils.pickle\<close> or the iteration raise is a
  \<open>string\<close> (the name of the exception) and reaches the caller as \<open>Propagated\<close>, which
  tells the \<^verbatim>\<open>ValueError\<close> of the guard of \<^verbatim>\<open>serialize\<close> from one of the corpus class.
  \<^verbatim>\<open>docbyoffset\<close> is the last call of \<^verbatim>\<open>__getitem__\<close>, with no handler around it: it raises
  an \<open>error\<close> of any class, \<^verbatim>\<open>IndexError\<close> included (a class that has no constructor
  here is \<open>Propagated\<close> with its name), and the caller of \<^verbatim>\<open>corpus[docno]\<close> gets that very
  exception.
\<close>

datatype error =
    ValueError
  | NotImplementedError
  | RuntimeError
  | IndexError
  | TypeError
  | Propagated string

text \<open>
  The objects \<^verbatim>\<open>utils.unpickle\<close> may hand back and \<^verbatim>\<open>self.index\<close> may hold, other than
  \<^verbatim>\<open>None\<close>: a list of offsets, or an object that is no sequence at all (an integer).
  Nothing in the class checks which one it got.
\<close>

datatype pyobj =
    PyList "int list"
  | PyInt int

text \<open>
  The document stream handed to \<^verbatim>\<open>serialize\<close>. The code looks at one thing only:
  whether the object has an attribute \<^verbatim>\<open>fname\<close>, and its value. A plain list of documents
  has none; a corpus object bound to a file has one; a generator or a transformation
  wrapped around a corpus reads the same file but exposes no attribute of its own.
\<close>

datatype 'd corpus =
    InMemory "'d list"
  | FileBacked string "'d list"
  | Wrapped "'d corpus"

fun corpus_docs :: "'d corpus \<Rightarrow> 'd list" where
  "corpus_docs (InMemory ds) = ds"
| "corpus_docs (FileBacked p ds) = ds"
| "corpus_docs (Wrapped c) = corpus_docs c"

text \<open>\<^verbatim>\<open>hasattr(corpus, 'fname')\<close> and \<^verbatim>\<open>corpus.fname\<close>: \<open>None\<close> when the attribute is missing.\<close>

fun fname_attr :: "'d corpus \<Rightarrow> string option" where
  "fname_attr (InMemory ds) = None"
| "fname_attr (FileBacked p ds) = Some p"
| "fname_attr (Wrapped c) = None"

text \<open>The file the documents of the stream are really read from, if any.\<close>

fun backing_path :: "'d corpus \<Rightarrow> string option" where
  "backing_path (InMemory ds) = None"
| "backing_path (FileBacked p ds) = Some p"
| "backing_path (Wrapped c) = backing_path c"

text \<open>
  The keyword arguments of one call of \<^verbatim>\<open>save_corpus\<close>: \<open>None\<close> in a field means that the
  keyword is absent from the call, so that the default of the callee applies.
\<close>

record 'l save_kwargs =
  kw_labels :: "'l option"
  kw_progress_cnt :: "int option"

record 'w utils =
  unpickle :: "string \<Rightarrow> 'w \<Rightarrow> string + pyobj option"
  pickle :: "int list \<Rightarrow> string \<Rightarrow> 'w \<Rightarrow> (string + unit) \<times> 'w"

text \<open>
  The corpus class. \<^verbatim>\<open>save_corpus\<close> returns the offsets, or \<^verbatim>\<open>None\<close> when the format
  keeps none; \<open>iter_self\<close> is one full pass of \<^verbatim>\<open>for doc in self\<close>.
\<close>

record ('w, 'd, 'm, 'l) serializer =
  save_corpus :: "string \<Rightarrow> 'd corpus \<Rightarrow> 'm \<Rightarrow> 'l save_kwargs \<Rightarrow> 'w
                    \<Rightarrow> (string + int list option) \<times> 'w"
  docbyoffset :: "int \<Rightarrow> 'w \<Rightarrow> (error + 'd) \<times> 'w"
  iter_self :: "'w \<Rightarrow> (string + 'd list) \<times> 'w"

text \<open>The instance: \<^verbatim>\<open>self.index\<close> and \<^verbatim>\<open>self.length\<close>, each \<^verbatim>\<open>None\<close> or a value.\<close>

record indexed_corpus =
  index :: "pyobj option"
  length_attr :: "nat option"

section \<open>Operations\<close>

text \<open>\<^verbatim>\<open>if index_fname is None: index_fname = fname + '.index'\<close>\<close>

definition default_index_fname :: "string \<Rightarrow> string option \<Rightarrow> string" where
  "default_index_fname fname index_fname =
     (case index_fname of None \<Rightarrow> fname @ ''.index'' | Some p \<Rightarrow> p)"

text \<open>
  \<^verbatim>\<open>__init__\<close>: the body of the \<^verbatim>\<open>try\<close> is a computation that may raise; the bare
  \<^verbatim>\<open>except\<close> replaces every exception by \<^verbatim>\<open>self.index = None\<close>. The object that
  \<^verbatim>\<open>utils.unpickle\<close> returns is stored as it is, \<^verbatim>\<open>None\<close> included.
\<close>

definition IndexedCorpus_init ::
  "('w, 'z) utils_scheme \<Rightarrow> string \<Rightarrow> string option \<Rightarrow> 'w \<Rightarrow> error + indexed_corpus" where
  "IndexedCorpus_init u fname index_fname w =
     (let try_body =
            (case unpickle u (default_index_fname fname index_fname) w of
               Inl e \<Rightarrow> Inl (Propagated e)
             | Inr obj \<Rightarrow> Inr obj);
          idx = (case try_body of Inl e \<Rightarrow> None | Inr i \<Rightarrow> i)
      in Inr \<lparr>index = idx, length_attr = None\<rparr>)"

text \<open>Lines 96 to 102 of \<^verbatim>\<open>serialize\<close>: what happens to the result of \<^verbatim>\<open>save_corpus\<close>.\<close>

definition store_offsets ::
  "('w, 'z) utils_scheme \<Rightarrow> string \<Rightarrow> (string + int list option) \<times> 'w \<Rightarrow> (error + unit) \<times> 'w" where
  "store_offsets u index_fname saved =
     (case saved of
        (Inl e, w1) \<Rightarrow> (Inl (Propagated e), w1)
      | (Inr None, w1) \<Rightarrow> (Inl NotImplementedError, w1)
      | (Inr (Some offsets), w1) \<Rightarrow>
          (case pickle u offsets index_fname w1 of
             (Inl e, w2) \<Rightarrow> (Inl (Propagated e), w2)
           | (Inr r, w2) \<Rightarrow> (Inr (), w2)))"

definition serialize ::
  "('w, 'z) utils_scheme \<Rightarrow> ('w, 'd, 'm, 'l, 'y) serializer_scheme \<Rightarrow> string \<Rightarrow> 'd corpus \<Rightarrow> 'm
     \<Rightarrow> string option \<Rightarrow> int option \<Rightarrow> 'l option \<Rightarrow> 'w \<Rightarrow> (error + unit) \<times> 'w" where
  "serialize u s fname corpus id2word index_fname progress_cnt labels w =
     (if (case fname_attr corpus of None \<Rightarrow> False | Some f \<Rightarrow> fname = f)
      then (Inl ValueError, w)
      else
        store_offsets u (default_index_fname fname index_fname)
          (if progress_cnt \<noteq> None
           then (if labels \<noteq> None
                 then save_corpus s fname corpus id2word
                        \<lparr>kw_labels = labels, kw_progress_cnt = progress_cnt\<rparr> w
                 else save_corpus s fname corpus id2word
                        \<lparr>kw_labels = None, kw_progress_cnt = progress_cnt\<rparr> w)
           else (if labels \<noteq> None
                 then save_corpus s fname corpus id2word
                        \<lparr>kw_labels = labels, kw_progress_cnt = None\<rparr> w
                 else save_corpus s fname corpus id2word
                        \<lparr>kw_labels = None, kw_progress_cnt = None\<rparr> w)))"

text \<open>\<^verbatim>\<open>len(self.index)\<close>: the number of elements of a list, \<^verbatim>\<open>TypeError\<close> on an integer.\<close>

fun py_len :: "pyobj \<Rightarrow> error + nat" where
  "py_len (PyList xs) = Inr (length xs)"
| "py_len (PyInt n) = Inl TypeError"

text \<open>
  \<^verbatim>\<open>__len__\<close> returns the value, the instance (its \<^verbatim>\<open>length\<close> may have been set) and
  the state left by the pass over the stream, if there was one.
\<close>

definition IndexedCorpus_len ::
  "('w, 'd, 'm, 'l, 'y) serializer_scheme \<Rightarrow> indexed_corpus \<Rightarrow> 'w
     \<Rightarrow> (error + nat) \<times> indexed_corpus \<times> 'w" where
  "IndexedCorpus_len s self w =
     (case index self of
        Some obj \<Rightarrow> (py_len obj, self, w)
      | None \<Rightarrow>
          (case length_attr self of
             Some n \<Rightarrow> (Inr n, self, w)
           | None \<Rightarrow>
               (case iter_self s w of
                  (Inl e, w1) \<Rightarrow> (Inl (Propagated e), self, w1)
                | (Inr ds, w1) \<Rightarrow>
                    (Inr (length ds), self\<lparr>length_attr := Some (length ds)\<rparr>, w1))))"

text \<open>
  \<^verbatim>\<open>self.index[docno]\<close> on a Python list: a negative subscript counts from the end, and
  a subscript outside \<open>[-n, n)\<close> raises \<^verbatim>\<open>IndexError\<close>.
\<close>

definition list_getitem :: "int list \<Rightarrow> int \<Rightarrow> error + int" where
  "list_getitem xs i =
     (if 0 \<le> i \<and> i < int (length xs) then Inr (xs ! nat i)
      else if - int (length xs) \<le> i \<and> i < 0 then Inr (xs ! nat (int (length xs) + i))
      else Inl IndexError)"

text \<open>\<^verbatim>\<open>self.index[docno]\<close> on any object: an integer is not subscriptable.\<close>

fun py_getitem :: "pyobj \<Rightarrow> int \<Rightarrow> error + int" where
  "py_getitem (PyList xs) i = list_getitem xs i"
| "py_getitem (PyInt n) i = Inl TypeError"

text \<open>
  \<^verbatim>\<open>__getitem__\<close>: the outcome of \<^verbatim>\<open>docbyoffset\<close>, value or exception, is returned as it
  is.
\<close>

definition IndexedCorpus_getitem ::
  "('w, 'd, 'm, 'l, 'y) serializer_scheme \<Rightarrow> indexed_corpus \<Rightarrow> int \<Rightarrow> 'w \<Rightarrow> (error + 'd) \<times> 'w" where
  "IndexedCorpus_getitem s self docno w =
     (case index self of
        None \<Rightarrow> (Inl RuntimeError, w)
      | Some obj \<Rightarrow>
          (case py_getitem obj docno of
             Inl e \<Rightarrow> (Inl e, w)
           | Inr offset \<Rightarrow> docbyoffset s offset w))"

section \<open>A line-oriented corpus format over an in-memory file system\<close>

text \<open>
  A concrete instance of the collaborators, used to run the operations: files are values
  in a map from paths, a corpus file holds one document per line, the offset of a document
  is the number of bytes before it, and every call of a collaborator is appended to a log.
  An index file holds whatever object was pickled into it. \<^verbatim>\<open>docbyoffset\<close> raises
  \<^verbatim>\<open>IndexError\<close> at an offset where no document of the file starts.
\<close>

datatype demo_file = CorpusFile "string list" | IndexFile "pyobj option"

datatype demo_call =
    CallSaveCorpus string bool bool
  | CallPickle string
  | CallIter
  | CallDocByOffset int

record demo_world =
  files :: "string \<Rightarrow> demo_file option"
  calls :: "demo_call list"

definition demo_utils :: "demo_world utils" where
  "demo_utils =
     \<lparr>unpickle = (\<lambda>p w. case files w p of
                      None \<Rightarrow> Inl ''IOError''
                    | Some (CorpusFile ds) \<Rightarrow> Inl ''UnpicklingError''
                    | Some (IndexFile obj) \<Rightarrow> Inr obj),
      pickle = (\<lambda>xs p w.
                  (Inr (), w\<lparr>files := (files w)(p \<mapsto> IndexFile (Some (PyList xs))),
                             calls := calls w @ [CallPickle p]\<rparr>))\<rparr>"

fun line_offsets :: "int \<Rightarrow> string list \<Rightarrow> int list" where
  "line_offsets pos [] = []"
| "line_offsets pos (d # ds) = pos # line_offsets (pos + int (length d) + 1) ds"

fun line_at :: "int \<Rightarrow> int \<Rightarrow> string list \<Rightarrow> string option" where
  "line_at pos off [] = None"
| "line_at pos off (d # ds) =
     (if off = pos then Some d else line_at (pos + int (length d) + 1) off ds)"

definition line_corpus :: "bool \<Rightarrow> string \<Rightarrow> (demo_world, string, unit, unit) serializer" where
  "line_corpus indexed path =
     \<lparr>save_corpus = (\<lambda>fname corpus id2word kw w.
         (if indexed then Inr (Some (line_offsets 0 (corpus_docs corpus))) else Inr None,
          w\<lparr>files := (files w)(fname \<mapsto> CorpusFile (corpus_docs corpus)),
            calls := calls w @
              [CallSaveCorpus fname (kw_labels kw \<noteq> None) (kw_progress_cnt kw \<noteq> None)]\<rparr>)),
      docbyoffset = (\<lambda>off w.
         (case files w path of
            Some (CorpusFile ds) \<Rightarrow>
              (case line_at 0 off ds of None \<Rightarrow> Inl IndexError | Some d \<Rightarrow> Inr d)
          | Some (IndexFile obj) \<Rightarrow> Inl (Propagated ''ValueError'')
          | None \<Rightarrow> Inl (Propagated ''IOError''),
          w\<lparr>calls := calls w @ [CallDocByOffset off]\<rparr>)),
      iter_self = (\<lambda>w.
         (case files w path of
            Some (CorpusFile ds) \<Rightarrow> Inr ds
          | Some (IndexFile obj) \<Rightarrow> Inl ''ValueError''
          | None \<Rightarrow> Inl ''IOError'',
          w\<lparr>calls := calls w @ [CallIter]\<rparr>))\<rparr>"

definition empty_world :: demo_world where
  "empty_world = \<lparr>files = (\<lambda>p. None), calls = []\<rparr>"

definition stored_world :: demo_world where
  "stored_world =
     snd (serialize demo_utils (line_corpus True ''test.dat'') ''test.dat''
            (InMemory [''D0'', ''D1'']) () None None None empty_world)"

text \<open>
  The states and instances the properties are run on: \<open>stored_world\<close> after two documents
  were serialized to \<^verbatim>\<open>test.dat\<close>, \<open>scanned_world\<close> after one more pass over that file,
  \<open>plain_world\<close> after a format without offsets wrote \<^verbatim>\<open>plain.txt\<close>, \<open>mismatch_world\<close>
  after the integer 5 was pickled into \<^verbatim>\<open>test.dat.index\<close>, \<open>stale_world\<close> after
  \<^verbatim>\<open>test.dat\<close> was cut down to its first document while the index stayed.
\<close>

definition mismatch_world :: demo_world where
  "mismatch_world =
     stored_world\<lparr>files := (files stored_world)(''test.dat.index'' \<mapsto> IndexFile (Some (PyInt 5)))\<rparr>"

definition stale_world :: demo_world where
  "stale_world =
     stored_world\<lparr>files := (files stored_world)(''test.dat'' \<mapsto> CorpusFile [''D0''])\<rparr>"


definition plain_world :: demo_world where
  "plain_world = snd (save_corpus (line_corpus False ''plain.txt'') ''plain.txt''
     (InMemory [''D0'', ''D1'']) () \<lparr>kw_labels = None, kw_progress_cnt = None\<rparr> empty_world)"

definition indexed_handle :: indexed_corpus where
  "indexed_handle = \<lparr>index = Some (PyList [0, 3]), length_attr = None\<rparr>"

definition unindexed_handle :: indexed_corpus where
  "unindexed_handle = \<lparr>index = None, length_attr = None\<rparr>"

text \<open>A generator over the corpus stored in \<^verbatim>\<open>test.dat\<close>: same file, no attribute.\<close>

definition wrapped_corpus :: "string corpus" where
  "wrapped_corpus = Wrapped (FileBacked ''test.dat'' [''D0'', ''D1''])"

section \<open>Properties\<close>

subsection \<open>Auxiliary facts\<close>

lemma length_line_offsets: "length (line_offsets pos ds) = length ds"
  by (induction ds arbitrary: pos) simp_all

lemma serialize_proceeds:
  "fname_attr corpus \<noteq> Some fname \<Longrightarrow>
   serialize u s fname corpus id2word index_fname progress_cnt labels w =
     store_offsets u (default_index_fname fname index_fname)
       (save_corpus s fname corpus id2word
          \<lparr>kw_labels = labels, kw_progress_cnt = progress_cnt\<rparr> w)"
  unfolding serialize_def by (auto split: option.splits)

lemma serialize_guard:
  "fname_attr corpus = Some fname \<Longrightarrow>
   serialize u s fname corpus id2word index_fname progress_cnt labels w = (Inl ValueError, w)"
  unfolding serialize_def by simp

lemma store_offsets_ok:
  "store_offsets u p (r, w1) = (Inr (), w2) \<Longrightarrow>
   \<exists>offs. r = Inr (Some offs) \<and> pickle u offs p w1 = (Inr (), w2)"
  unfolding store_offsets_def
  by (auto split: sum.splits option.splits prod.splits)

lemma store_offsets_not_ValueError: "fst (store_offsets u p r) \<noteq> Inl ValueError"
  unfolding store_offsets_def by (auto split: prod.splits sum.splits option.splits)



lemma list_getitem_neg:
  "- int (length xs) \<le> i \<Longrightarrow> i < 0 \<Longrightarrow> list_getitem xs i = Inr (xs ! nat (int (length xs) + i))"
  unfolding list_getitem_def by simp

lemma getitem_offset:
  "index self = Some (PyList xs) \<Longrightarrow> list_getitem xs docno = Inr off \<Longrightarrow>
   IndexedCorpus_getitem s self docno w = docbyoffset s off w"
  unfolding IndexedCorpus_getitem_def by simp


text \<open>The concrete file system gives back the offsets it stored, and the line format
  returns one offset for each document.\<close>

lemma demo_law:
  "\<forall>xs p w1 w2. pickle demo_utils xs p w1 = (Inr (), w2) \<longrightarrow>
      unpickle demo_utils p w2 = Inr (Some (PyList xs))"
  by (auto simp: demo_utils_def)

lemma demo_per_doc:
  "\<forall>f c m kw w1 r w2. save_corpus (line_corpus True path) f c m kw w1 = (Inr (Some r), w2)
      \<longrightarrow> length r = length (corpus_docs c)"
  by (auto simp: line_corpus_def length_line_offsets)

lemma stored_world_files:
  "files stored_world ''test.dat'' = Some (CorpusFile [''D0'', ''D1''])"
  "files stored_world ''test.dat.index'' = Some (IndexFile (Some (PyList [0, 3])))"
  "calls stored_world = [CallSaveCorpus ''test.dat'' False False, CallPickle ''test.dat.index'']"
  by (simp_all add: stored_world_def serialize_def store_offsets_def default_index_fname_def
      demo_utils_def line_corpus_def empty_world_def)

lemma plain_world_files:
  "files plain_world ''plain.txt'' = Some (CorpusFile [''D0'', ''D1''])"
  "files plain_world ''plain.txt.index'' = None"
  "calls plain_world = [CallSaveCorpus ''plain.txt'' False False]"
  by (simp_all add: plain_world_def line_corpus_def empty_world_def)

lemma demo_docbyoffset:
  "docbyoffset (line_corpus True ''test.dat'') 3 stored_world =
     (Inr ''D1'', stored_world\<lparr>calls := calls stored_world @ [CallDocByOffset 3]\<rparr>)"
  "docbyoffset (line_corpus True ''test.dat'') 0 stored_world =
     (Inr ''D0'', stored_world\<lparr>calls := calls stored_world @ [CallDocByOffset 0]\<rparr>)"
  by (simp_all add: line_corpus_def stored_world_files)

lemma stale_docbyoffset:
  "docbyoffset (line_corpus True ''test.dat'') 3 stale_world =
     (Inl IndexError, stale_world\<lparr>calls := calls stale_world @ [CallDocByOffset 3]\<rparr>)"
  by (simp add: line_corpus_def stale_world_def)


lemma demo_calls:
  "calls (snd (store_offsets demo_utils p
     (save_corpus (line_corpus True path) fname corpus id2word kw w))) =
   calls w @ [CallSaveCorpus fname (kw_labels kw \<noteq> None) (kw_progress_cnt kw \<noteq> None),
              CallPickle p]"
  by (simp add: store_offsets_def demo_utils_def line_corpus_def)

text \<open>The constructor on a missing index file, on a file that is no pickle, and on the
  index written by \<^verbatim>\<open>serialize\<close>.\<close>

lemma init_examples:
  "IndexedCorpus_init demo_utils ''test.dat'' None empty_world = Inr unindexed_handle"
  "IndexedCorpus_init demo_utils ''test.dat'' (Some ''test.dat'') stored_world = Inr unindexed_handle"
  "IndexedCorpus_init demo_utils ''test.dat'' None stored_world = Inr indexed_handle"
  by (simp_all add: IndexedCorpus_init_def default_index_fname_def demo_utils_def
      empty_world_def stored_world_files unindexed_handle_def indexed_handle_def)

text \<open>An instance whose index is the integer 5: both operations raise \<^verbatim>\<open>TypeError\<close>.\<close>

lemma mismatch_examples:
  "IndexedCorpus_len s \<lparr>index = Some (PyInt 5), length_attr = None\<rparr> w =
     (Inl TypeError, \<lparr>index = Some (PyInt 5), length_attr = None\<rparr>, w)"
  "IndexedCorpus_getitem s \<lparr>index = Some (PyInt 5), length_attr = None\<rparr> docno w =
     (Inl TypeError, w)"
  by (simp_all add: IndexedCorpus_len_def IndexedCorpus_getitem_def)

subsection \<open>Serialize, then open\<close>

text \<open>
  Claim C1. Blob persistence gives back what it stored, and the corpus class returns one
  offset for each document of the stream. Then, after a \<^verbatim>\<open>serialize\<close> that succeeded,
  the constructor called with the same file names loads the offsets that \<^verbatim>\<open>save_corpus\<close>
  returned, as many as the stream has documents, and \<^verbatim>\<open>__len__\<close> returns that number and
  leaves the instance and the state as they were: no pass over the stream is made.
\<close>

theorem serialize_open_roundtrip:
  assumes law: "\<forall>xs p w1 w2. pickle u xs p w1 = (Inr (), w2) \<longrightarrow> unpickle u p w2 = Inr (Some (PyList xs))"
    and per_doc: "\<forall>f c m kw w1 r w2.
        save_corpus s f c m kw w1 = (Inr (Some r), w2) \<longrightarrow> length r = length (corpus_docs c)"
    and ok: "serialize u s fname corpus id2word index_fname progress_cnt labels w = (Inr (), w')"
  shows "\<exists>offs w1.
      save_corpus s fname corpus id2word
        \<lparr>kw_labels = labels, kw_progress_cnt = progress_cnt\<rparr> w = (Inr (Some offs), w1) \<and>
      length offs = length (corpus_docs corpus) \<and>
      IndexedCorpus_init u fname index_fname w' = Inr \<lparr>index = Some (PyList offs), length_attr = None\<rparr> \<and>
      IndexedCorpus_len s \<lparr>index = Some (PyList offs), length_attr = None\<rparr> w' =
        (Inr (length (corpus_docs corpus)), \<lparr>index = Some (PyList offs), length_attr = None\<rparr>, w')"
proof -
  have guard: "fname_attr corpus \<noteq> Some fname"
  proof
    assume "fname_attr corpus = Some fname"
    with ok show False by (simp add: serialize_guard)
  qed
  obtain r w1 where saved:
    "save_corpus s fname corpus id2word
       \<lparr>kw_labels = labels, kw_progress_cnt = progress_cnt\<rparr> w = (r, w1)"
    by (cases "save_corpus s fname corpus id2word
       \<lparr>kw_labels = labels, kw_progress_cnt = progress_cnt\<rparr> w")
  from ok saved
  have "store_offsets u (default_index_fname fname index_fname) (r, w1) = (Inr (), w')"
    by (simp add: serialize_proceeds guard)
  from store_offsets_ok [OF this] obtain offs where
    r: "r = Inr (Some offs)" and
    pk: "pickle u offs (default_index_fname fname index_fname) w1 = (Inr (), w')"
    by blast
  from law pk have un: "unpickle u (default_index_fname fname index_fname) w' = Inr (Some (PyList offs))"
    by blast
  from per_doc saved r have len: "length offs = length (corpus_docs corpus)"
    by blast
  have init: "IndexedCorpus_init u fname index_fname w' =
      Inr \<lparr>index = Some (PyList offs), length_attr = None\<rparr>"
    unfolding IndexedCorpus_init_def by (simp add: un)
  have "IndexedCorpus_len s \<lparr>index = Some (PyList offs), length_attr = None\<rparr> w' =
           (Inr (length (corpus_docs corpus)), \<lparr>index = Some (PyList offs), length_attr = None\<rparr>, w')"
    unfolding IndexedCorpus_len_def by (simp add: len)
  with saved r len init show ?thesis by blast
qed

text \<open>Two documents written to \<^verbatim>\<open>test.dat\<close> and read back: the index is \<open>[0, 3]\<close>.\<close>

theorem serialize_open_roundtrip_witness:
  "serialize demo_utils (line_corpus True ''test.dat'') ''test.dat''
     (InMemory [''D0'', ''D1'']) () None None None empty_world = (Inr (), stored_world) \<and>
   IndexedCorpus_init demo_utils ''test.dat'' None stored_world =
     Inr \<lparr>index = Some (PyList [0, 3]), length_attr = None\<rparr> \<and>
   IndexedCorpus_len (line_corpus True ''test.dat'') \<lparr>index = Some (PyList [0, 3]), length_attr = None\<rparr>
     stored_world = (Inr 2, \<lparr>index = Some (PyList [0, 3]), length_attr = None\<rparr>, stored_world)"
proof -
  have ok: "serialize demo_utils (line_corpus True ''test.dat'') ''test.dat''
     (InMemory [''D0'', ''D1'']) () None None None empty_world = (Inr (), stored_world)"
    by (simp add: stored_world_def serialize_def store_offsets_def default_index_fname_def
      demo_utils_def line_corpus_def empty_world_def)
  have sv: "save_corpus (line_corpus True ''test.dat'') ''test.dat'' (InMemory [''D0'', ''D1'']) ()
      \<lparr>kw_labels = None, kw_progress_cnt = None\<rparr> empty_world =
      (Inr (Some [0, 3]), snd (save_corpus (line_corpus True ''test.dat'') ''test.dat''
         (InMemory [''D0'', ''D1'']) () \<lparr>kw_labels = None, kw_progress_cnt = None\<rparr> empty_world))"
    by (simp add: line_corpus_def)
  from serialize_open_roundtrip [OF demo_law demo_per_doc ok] sv ok
  show ?thesis by auto
qed

subsection \<open>Random access\<close>




text \<open>
  Claim C3. Without an index, \<^verbatim>\<open>corpus[docno]\<close> raises the "no index" error
  (\<^verbatim>\<open>RuntimeError\<close>) for every \<open>docno\<close>, whatever the corpus class is, and leaves the state
  as it was: neither the stream nor \<^verbatim>\<open>docbyoffset\<close> is touched.
\<close>

theorem getitem_unindexed:
  "index self = None \<Longrightarrow> IndexedCorpus_getitem s self docno w = (Inl RuntimeError, w)"
  unfolding IndexedCorpus_getitem_def by simp

theorem getitem_unindexed_witness:
  "index unindexed_handle = None \<and>
   IndexedCorpus_getitem (line_corpus True ''test.dat'') unindexed_handle 0 stored_world =
     (Inl RuntimeError, stored_world)"
proof -
  have h: "index unindexed_handle = None" by (simp add: unindexed_handle_def)
  from getitem_unindexed [OF h, where s = "line_corpus True ''test.dat''" and docno = 0
      and w = stored_world] h
  show ?thesis by simp
qed

text \<open>
  Claim C9, as amended. With a list of \<open>N\<close> offsets as index and \<open>-N \<le> docno \<le> -1\<close>, the
  subscript \<^verbatim>\<open>self.index[docno]\<close> raises no out-of-range error: it is the offset
  \<open>index[N + docno]\<close>, and the outcome of \<^verbatim>\<open>corpus[docno]\<close> is the outcome of \<^verbatim>\<open>docbyoffset\<close>
  at that offset, value or exception.
\<close>

theorem getitem_negative:
  assumes "index self = Some (PyList xs)" and "- int (length xs) \<le> docno" and "docno \<le> - 1"
  shows "py_getitem (PyList xs) docno = Inr (xs ! nat (int (length xs) + docno)) \<and>
         IndexedCorpus_getitem s self docno w =
           docbyoffset s (xs ! nat (int (length xs) + docno)) w"
proof -
  from assms(2,3) have sub: "list_getitem xs docno = Inr (xs ! nat (int (length xs) + docno))"
    by (simp add: list_getitem_neg)
  from getitem_offset [OF assms(1) sub, where s = s and w = w] sub show ?thesis
    by simp
qed

theorem getitem_negative_witness:
  "index indexed_handle = Some (PyList [0, 3]) \<and> - int (length [0 :: int, 3]) \<le> - 1 \<and>
   IndexedCorpus_getitem (line_corpus True ''test.dat'') indexed_handle (- 1) stored_world =
     (Inr ''D1'', stored_world\<lparr>calls := calls stored_world @ [CallDocByOffset 3]\<rparr>) \<and>
   IndexedCorpus_getitem (line_corpus True ''test.dat'') indexed_handle (- 2) stored_world =
     (Inr ''D0'', stored_world\<lparr>calls := calls stored_world @ [CallDocByOffset 0]\<rparr>)"
proof -
  have h: "index indexed_handle = Some (PyList [0, 3])" by (simp add: indexed_handle_def)
  from getitem_negative [OF h, of "- 1" "line_corpus True ''test.dat''" stored_world]
       getitem_negative [OF h, of "- 2" "line_corpus True ''test.dat''" stored_world]
  show ?thesis by (simp add: h demo_docbyoffset)
qed

text \<open>
  The claim as written says that \<^verbatim>\<open>corpus[docno]\<close> raises no out-of-range error at such an
  ordinal. With the index \<open>[0, 3]\<close> and a file that has lost its second document,
  \<^verbatim>\<open>corpus[-1]\<close> looks up the offset 3, \<^verbatim>\<open>docbyoffset\<close> raises \<^verbatim>\<open>IndexError\<close> there, and that
  is what the caller gets.
\<close>

theorem getitem_negative_counterexample:
  "index indexed_handle = Some (PyList [0, 3]) \<and>
   - int (length [0 :: int, 3]) \<le> - 1 \<and>
   \<not> (fst (IndexedCorpus_getitem (line_corpus True ''test.dat'') indexed_handle (- 1) stale_world)
        \<noteq> Inl IndexError)"
  by (simp add: IndexedCorpus_getitem_def indexed_handle_def list_getitem_def stale_docbyoffset)

subsection \<open>Opening a corpus\<close>

text \<open>
  Claim C4, as amended. The constructor returns an instance for every file name, every
  index file name and every state. When \<^verbatim>\<open>utils.unpickle\<close> raises, whatever the exception,
  the instance has no index. When it returns an object, that object is the index, of
  whatever type it is: the instance has an index unless the object is \<^verbatim>\<open>None\<close>. The cached
  length starts empty.
\<close>

theorem init_never_raises:
  "IndexedCorpus_init u fname index_fname w =
     Inr \<lparr>index = (case unpickle u (default_index_fname fname index_fname) w of
                      Inl e \<Rightarrow> None | Inr obj \<Rightarrow> obj),
          length_attr = None\<rparr>"
  unfolding IndexedCorpus_init_def by (simp split: sum.splits)

text \<open>
  The claim as written counts a blob of the wrong type among the failures that leave the
  instance without an index. With the integer 5 pickled into \<^verbatim>\<open>test.dat.index\<close>, the load
  raises nothing and the instance has the index 5.
\<close>

theorem init_mismatch_counterexample:
  "files mismatch_world ''test.dat.index'' = Some (IndexFile (Some (PyInt 5))) \<and>
   IndexedCorpus_init demo_utils ''test.dat'' None mismatch_world =
     Inr \<lparr>index = Some (PyInt 5), length_attr = None\<rparr> \<and>
   IndexedCorpus_init demo_utils ''test.dat'' None mismatch_world \<noteq>
     Inr \<lparr>index = None, length_attr = None\<rparr>"
  by (simp add: IndexedCorpus_init_def default_index_fname_def demo_utils_def mismatch_world_def)

subsection \<open>Length\<close>



subsection \<open>Serialize: the guard, the options, the formats without offsets\<close>

text \<open>
  Claim C6, as amended. When the stream has an attribute \<^verbatim>\<open>fname\<close> equal to the target
  file name, \<^verbatim>\<open>serialize\<close> raises \<^verbatim>\<open>ValueError\<close> and the state is the one it was called in,
  whatever the collaborators are: \<^verbatim>\<open>save_corpus\<close> and \<^verbatim>\<open>utils.pickle\<close> are not called.
\<close>

theorem serialize_guard_fires:
  "fname_attr corpus = Some fname \<Longrightarrow>
   serialize u s fname corpus id2word index_fname progress_cnt labels w = (Inl ValueError, w)"
  by (rule serialize_guard)

theorem serialize_guard_fires_witness:
  "fname_attr (FileBacked ''test.dat'' [''D0'', ''D1'']) = Some ''test.dat'' \<and>
   serialize demo_utils (line_corpus True ''test.dat'') ''test.dat''
     (FileBacked ''test.dat'' [''D0'', ''D1'']) () None None None stored_world =
     (Inl ValueError, stored_world)"
proof -
  have h: "fname_attr (FileBacked ''test.dat'' [''D0'', ''D1'']) = Some ''test.dat''" by simp
  from serialize_guard_fires [OF h, where u = demo_utils and s = "line_corpus True ''test.dat''"
      and id2word = "()" and index_fname = None and progress_cnt = None and labels = None
      and w = stored_world] h
  show ?thesis by simp
qed

text \<open>
  The claim as written speaks of the file that backs the stream. A generator over the
  corpus stored in \<^verbatim>\<open>test.dat\<close> is backed by that file and has no attribute \<^verbatim>\<open>fname\<close>:
  serializing it to \<^verbatim>\<open>test.dat\<close> raises nothing and overwrites the file.
\<close>

theorem serialize_backing_counterexample:
  "\<not> (backing_path wrapped_corpus = Some ''test.dat'' \<longrightarrow>
       serialize demo_utils (line_corpus True ''test.dat'') ''test.dat'' wrapped_corpus ()
         None None None stored_world = (Inl ValueError, stored_world))"
  by (simp add: wrapped_corpus_def serialize_def store_offsets_def default_index_fname_def
      demo_utils_def line_corpus_def)

text \<open>
  Claim C7. When the guard lets the call through and \<^verbatim>\<open>save_corpus\<close> returns \<^verbatim>\<open>None\<close>,
  \<^verbatim>\<open>serialize\<close> raises \<^verbatim>\<open>NotImplementedError\<close>, and the state is the one \<^verbatim>\<open>save_corpus\<close>
  left, whatever \<^verbatim>\<open>utils.pickle\<close> would do: no index file is written.
\<close>

theorem serialize_unsupported:
  assumes "fname_attr corpus \<noteq> Some fname"
    and "save_corpus s fname corpus id2word
           \<lparr>kw_labels = labels, kw_progress_cnt = progress_cnt\<rparr> w = (Inr None, w1)"
  shows "serialize u s fname corpus id2word index_fname progress_cnt labels w =
           (Inl NotImplementedError, w1)"
  using assms by (simp add: serialize_proceeds store_offsets_def)

theorem serialize_unsupported_witness:
  "serialize demo_utils (line_corpus False ''plain.txt'') ''plain.txt''
     (InMemory [''D0'', ''D1'']) () None None None empty_world =
     (Inl NotImplementedError, plain_world) \<and>
   files plain_world ''plain.txt.index'' = None \<and>
   calls plain_world = [CallSaveCorpus ''plain.txt'' False False]"
proof -
  have g: "fname_attr (InMemory [''D0'', ''D1'']) \<noteq> Some ''plain.txt''" by simp
  have sv: "save_corpus (line_corpus False ''plain.txt'') ''plain.txt''
     (InMemory [''D0'', ''D1'']) () \<lparr>kw_labels = None, kw_progress_cnt = None\<rparr> empty_world =
     (Inr None, plain_world)"
    by (simp add: plain_world_def line_corpus_def)
  from serialize_unsupported [OF g sv, where u = demo_utils and index_fname = None]
  show ?thesis by (simp add: plain_world_files)
qed

text \<open>
  Claim C8. When the guard lets the call through, \<^verbatim>\<open>save_corpus\<close> is called once, with the
  target file name, the stream and \<^verbatim>\<open>id2word\<close>, and with the keyword \<^verbatim>\<open>labels\<close>
  (\<^verbatim>\<open>progress_cnt\<close>) present exactly when the caller's value is not \<^verbatim>\<open>None\<close>; what
  \<^verbatim>\<open>serialize\<close> does next depends on the result of that call only.
\<close>

theorem serialize_passes_options:
  "fname_attr corpus \<noteq> Some fname \<Longrightarrow>
   serialize u s fname corpus id2word index_fname progress_cnt labels w =
     store_offsets u (default_index_fname fname index_fname)
       (save_corpus s fname corpus id2word
          \<lparr>kw_labels = labels, kw_progress_cnt = progress_cnt\<rparr> w)"
  unfolding serialize_def by (auto split: option.splits)

text \<open>The four combinations, read from the log of calls.\<close>

theorem serialize_passes_options_witness:
  "calls (snd (serialize demo_utils (line_corpus True ''a'') ''a'' (InMemory [''D0'']) ()
      None None None empty_world)) = [CallSaveCorpus ''a'' False False, CallPickle ''a.index''] \<and>
   calls (snd (serialize demo_utils (line_corpus True ''a'') ''a'' (InMemory [''D0'']) ()
      None None (Some ()) empty_world)) = [CallSaveCorpus ''a'' True False, CallPickle ''a.index''] \<and>
   calls (snd (serialize demo_utils (line_corpus True ''a'') ''a'' (InMemory [''D0'']) ()
      None (Some 100) None empty_world)) = [CallSaveCorpus ''a'' False True, CallPickle ''a.index''] \<and>
   calls (snd (serialize demo_utils (line_corpus True ''a'') ''a'' (InMemory [''D0'']) ()
      None (Some 100) (Some ()) empty_world)) = [CallSaveCorpus ''a'' True True, CallPickle ''a.index'']"
proof -
  have g: "fname_attr (InMemory [''D0'']) \<noteq> Some ''a''" by simp
  note th = serialize_passes_options [OF g, where u = demo_utils and s = "line_corpus True ''a''"
      and id2word = "()" and index_fname = None and w = empty_world]
  from th [where progress_cnt = None and labels = None]
       th [where progress_cnt = None and labels = "Some ()"]
       th [where progress_cnt = "Some 100" and labels = None]
       th [where progress_cnt = "Some 100" and labels = "Some ()"]
  show ?thesis
    by (simp add: demo_calls default_index_fname_def empty_world_def)
qed

text \<open>
  Claim C10. \<^verbatim>\<open>serialize\<close> raises the \<^verbatim>\<open>ValueError\<close> of its guard exactly when the stream
  has an attribute \<^verbatim>\<open>fname\<close> equal to the target file name. A stream without the attribute
  goes on to \<^verbatim>\<open>save_corpus\<close>, in every state and whatever file the stream reads.
\<close>

theorem serialize_guard_only_fname:
  "((fst (serialize u s fname corpus id2word index_fname progress_cnt labels w) = Inl ValueError)
      = (fname_attr corpus = Some fname)) \<and>
   (fname_attr corpus = None \<longrightarrow>
      serialize u s fname corpus id2word index_fname progress_cnt labels w =
        store_offsets u (default_index_fname fname index_fname)
          (save_corpus s fname corpus id2word
             \<lparr>kw_labels = labels, kw_progress_cnt = progress_cnt\<rparr> w))"
proof (cases "fname_attr corpus = Some fname")
  case True
  then show ?thesis by (simp add: serialize_guard)
next
  case False
  then show ?thesis by (simp add: serialize_proceeds store_offsets_not_ValueError)
qed

text \<open>The generator over \<^verbatim>\<open>test.dat\<close>, serialized to \<^verbatim>\<open>test.dat\<close>: both calls are made.\<close>

theorem serialize_guard_only_fname_witness:
  "fname_attr wrapped_corpus = None \<and> backing_path wrapped_corpus = Some ''test.dat'' \<and>
   fst (serialize demo_utils (line_corpus True ''test.dat'') ''test.dat'' wrapped_corpus ()
       None None None stored_world) = Inr () \<and>
   calls (snd (serialize demo_utils (line_corpus True ''test.dat'') ''test.dat'' wrapped_corpus ()
       None None None stored_world)) =
     [CallSaveCorpus ''test.dat'' False False, CallPickle ''test.dat.index'',
      CallSaveCorpus ''test.dat'' False False, CallPickle ''test.dat.index'']"
proof -
  have h: "fname_attr wrapped_corpus = None" by (simp add: wrapped_corpus_def)
  from serialize_guard_only_fname [where u = demo_utils and s = "line_corpus True ''test.dat''"
      and fname = "''test.dat''" and corpus = wrapped_corpus and id2word = "()"
      and index_fname = None and progress_cnt = None and labels = None and w = stored_world] h
  show ?thesis
    by (simp add: wrapped_corpus_def store_offsets_def default_index_fname_def
        demo_utils_def line_corpus_def stored_world_files)
qed

end
